theory Spec2Isabelle
  imports Main
begin

section \<open>JavaScript values, completions and callables\<close>

text \<open>
  The proxy of \<^verbatim>\<open>src/src/main.ts\<close> handles arguments and results of type \<^verbatim>\<open>any\<close>. The
  values that the proxy, the test middlewares and the examples of the specification touch
  are strings, numbers, booleans, plain objects (an association list of own properties in
  insertion order) and settled promises. The proxy never awaits: a promise is a value that
  it hands on.
\<close>

datatype jsval =
    JUndefined
  | JNull
  | JBool bool
  | JNum int
  | JStr string
  | JObj "(string \<times> jsval) list"
  | JResolved jsval
  | JRejected jsval

text \<open>
  What a call can throw: the \<^verbatim>\<open>TypeError\<close> of calling something that is not a function,
  the \<^verbatim>\<open>TypeError\<close> of reading a property of \<^verbatim>\<open>undefined\<close> or \<^verbatim>\<open>null\<close>, and any value
  thrown by a middleware or by the base provider.
\<close>

datatype jserror =
    NotAFunction
  | CannotReadProperty
  | Thrown jsval

text \<open>
  A callable takes its argument list and the state of the world \<open>'s\<close> (whatever the
  middlewares and the base provider read and write), and completes by throwing
  (\<open>Inl\<close>) or by returning a value (\<open>Inr\<close>), in a new state. A middleware takes
  \<^verbatim>\<open>next\<close> first and the rest of its arguments after it.
\<close>

type_synonym 's callable = "jsval list \<Rightarrow> 's \<Rightarrow> (jserror + jsval) \<times> 's"

type_synonym 's middleware = "'s callable \<Rightarrow> jsval list \<Rightarrow> 's \<Rightarrow> (jserror + jsval) \<times> 's"

text \<open>
  A property key of a \<^verbatim>\<open>get\<close> trap is a string or a symbol. A property of the provider
  holds a function or some other value; the provider maps keys to properties. The registry
  maps an operation name to its list of middlewares.
\<close>

datatype propkey = StrKey string | SymKey string

datatype 's property = Function "'s callable" | Data jsval

type_synonym 's provider = "propkey \<Rightarrow> 's property option"

type_synonym 's registry = "string \<Rightarrow> 's middleware list option"

section \<open>The interception proxy\<close>

text \<open>
  \<^verbatim>\<open>target[prop](...args)\<close>: the property is read, and the call throws a \<^verbatim>\<open>TypeError\<close>,
  before anything else happens, when what was read is not a function.
\<close>

definition callMember :: "'s provider \<Rightarrow> propkey \<Rightarrow> 's callable" where
  "callMember target prop args s =
     (case target prop of
        None \<Rightarrow> (Inl NotAFunction, s)
      | Some (Data v) \<Rightarrow> (Inl NotAFunction, s)
      | Some (Function f) \<Rightarrow> f args s)"

text \<open>
  \<^verbatim>\<open>Array.prototype.reduceRight(callback, initialValue)\<close>: the index runs from the last
  element down to the first, and the callback takes the accumulator first.
\<close>

fun reduceRightFrom :: "('b \<Rightarrow> 'a \<Rightarrow> 'b) \<Rightarrow> 'a list \<Rightarrow> nat \<Rightarrow> 'b \<Rightarrow> 'b" where
  "reduceRightFrom callback xs 0 acc = acc"
| "reduceRightFrom callback xs (Suc k) acc = reduceRightFrom callback xs k (callback acc (xs ! k))"

definition reduceRight :: "('b \<Rightarrow> 'a \<Rightarrow> 'b) \<Rightarrow> 'a list \<Rightarrow> 'b \<Rightarrow> 'b" where
  "reduceRight callback xs initialValue = reduceRightFrom callback xs (length xs) initialValue"

text \<open>
  The \<^verbatim>\<open>invokeChain\<close> of one call (lines 40 to 48): the initial value is the function that
  calls \<^verbatim>\<open>target[method]\<close> with the arguments it is given; every step of the fold wraps
  the accumulator \<^verbatim>\<open>next\<close> into a function of no parameter that calls the middleware with
  \<^verbatim>\<open>next\<close> and the \<^verbatim>\<open>args\<close> of the intercepted call.
\<close>

definition invokeChain ::
  "'s provider \<Rightarrow> 's middleware list \<Rightarrow> string \<Rightarrow> jsval list \<Rightarrow> 's callable" where
  "invokeChain target middlewaresToApply method args =
     reduceRight
       (\<lambda>next middleware. (\<lambda>ignored. middleware next args))
       middlewaresToApply
       (\<lambda>args'. callMember target (StrKey method) args')"

text \<open>
  The function that the \<^verbatim>\<open>get\<close> trap returns for \<^verbatim>\<open>prop\<close> (lines 33 to 51). A symbol key
  calls the target's property with the same arguments. A string key reads the registry
  (\<^verbatim>\<open>middlewares[method] ?? []\<close>), builds the chain, and calls it with the method name
  followed by the arguments.
\<close>

definition proxyGet :: "'s provider \<Rightarrow> 's registry \<Rightarrow> propkey \<Rightarrow> 's callable" where
  "proxyGet target middlewares prop args =
     (case prop of
        SymKey k \<Rightarrow> callMember target prop args
      | StrKey method \<Rightarrow>
          invokeChain target
            (case middlewares method of None \<Rightarrow> [] | Some ms \<Rightarrow> ms)
            method args (JStr method # args))"

text \<open>
  \<^verbatim>\<open>applyMiddlewares(dataProvider, middlewares)\<close>: the proxy, seen as a provider. The trap
  answers every property access with a function.
\<close>

definition applyMiddlewares :: "'s provider \<Rightarrow> 's registry \<Rightarrow> 's provider" where
  "applyMiddlewares dataProvider middlewares =
     (\<lambda>prop. Some (Function (proxyGet dataProvider middlewares prop)))"

section \<open>The middlewares and spies of the test file\<close>

text \<open>
  Reading a positional parameter that the caller did not pass gives \<^verbatim>\<open>undefined\<close>.
  Reading a property throws on \<^verbatim>\<open>undefined\<close> and \<^verbatim>\<open>null\<close>, and gives \<^verbatim>\<open>undefined\<close> where
  the value has no such own property. \<^verbatim>\<open>{...v}\<close> copies the own properties of an object
  and nothing from \<^verbatim>\<open>undefined\<close>, \<^verbatim>\<open>null\<close>, a number or a boolean (the indexed characters
  of a string primitive are not modelled: no claim passes a string as \<^verbatim>\<open>params\<close>). A key
  written after a spread replaces the value of that key where it stands, or is added last.
\<close>

definition nthArg :: "jsval list \<Rightarrow> nat \<Rightarrow> jsval" where
  "nthArg args i = (if i < length args then args ! i else JUndefined)"

fun getProp :: "jsval \<Rightarrow> string \<Rightarrow> jserror + jsval" where
  "getProp JUndefined k = Inl CannotReadProperty"
| "getProp JNull k = Inl CannotReadProperty"
| "getProp (JObj kvs) k = Inr (case map_of kvs k of None \<Rightarrow> JUndefined | Some v \<Rightarrow> v)"
| "getProp v k = Inr JUndefined"

fun ownProps :: "jsval \<Rightarrow> (string \<times> jsval) list" where
  "ownProps (JObj kvs) = kvs"
| "ownProps v = []"

fun setOwn :: "string \<Rightarrow> jsval \<Rightarrow> (string \<times> jsval) list \<Rightarrow> (string \<times> jsval) list" where
  "setOwn k v [] = [(k, v)]"
| "setOwn k v ((k', v') # kvs) = (if k' = k then (k, v) # kvs else (k', v') # setOwn k v kvs)"

text \<open>
  \<^verbatim>\<open>auditLogMiddleware\<close> (test file, lines 53 to 64): calls \<^verbatim>\<open>next\<close> with the resource and a
  copy of \<^verbatim>\<open>params\<close> whose \<^verbatim>\<open>data\<close> is a copy of \<^verbatim>\<open>params.data\<close> with \<^verbatim>\<open>updatedAt\<close> set.
  The reading of the clock, \<^verbatim>\<open>new Date().toISOString()\<close>, is the parameter \<open>now\<close>.
\<close>

definition auditLogMiddleware :: "string \<Rightarrow> 's middleware" where
  "auditLogMiddleware now next args s =
     (let resource = nthArg args 0; params = nthArg args 1 in
      case getProp params ''data'' of
        Inl e \<Rightarrow> (Inl e, s)
      | Inr d \<Rightarrow>
          next [resource,
                JObj (setOwn ''data''
                        (JObj (setOwn ''updatedAt'' (JStr now) (ownProps d)))
                        (ownProps params))] s)"

text \<open>
  \<^verbatim>\<open>dontUpdateMainResourceMiddleware\<close> (test file, lines 39 to 51). \<^verbatim>\<open>isEqual\<close> is lodash's
  deep equality, which is not code of this repository: it is the parameter \<open>isEqual\<close>.
\<close>

definition dontUpdateMainResourceMiddleware :: "(jsval \<Rightarrow> jsval \<Rightarrow> bool) \<Rightarrow> 's middleware" where
  "dontUpdateMainResourceMiddleware isEqual next args s =
     (let resource = nthArg args 0; params = nthArg args 1 in
      if resource \<noteq> JStr ''posts'' then next [resource, params] s
      else
        (case getProp params ''data'' of
           Inl e \<Rightarrow> (Inl e, s)
         | Inr d \<Rightarrow>
             (case getProp params ''previousData'' of
                Inl e \<Rightarrow> (Inl e, s)
              | Inr p \<Rightarrow>
                  if isEqual d p then (Inr (JResolved (JObj [(''data'', p)])), s)
                  else next [resource, params] s)))"

text \<open>
  What the tests observe: the calls that a spy records, with the arguments of each call
  (for a middleware, the arguments after \<^verbatim>\<open>next\<close>), and the lines written to the console.
\<close>

datatype event = SpyCall string "jsval list" | ConsoleLog "jsval list"

text \<open>
  \<^verbatim>\<open>loggingMiddleware(_dataProvider, method)\<close> (test file, lines 26 to 37): writes the method
  name and its arguments to the console, calls \<^verbatim>\<open>next\<close> with its arguments, and returns
  nothing; what \<^verbatim>\<open>next\<close> throws is not caught.
\<close>

definition loggingMiddleware :: "string \<Rightarrow> event list middleware" where
  "loggingMiddleware method next args s =
     (case next args (s @ [ConsoleLog (JStr method # args)]) of
        (Inl e, s') \<Rightarrow> (Inl e, s')
      | (Inr v, s') \<Rightarrow> (Inr JUndefined, s'))"

text \<open>
  \<^verbatim>\<open>vi.fn(impl)\<close>: a middleware that records each of its calls and then runs \<^verbatim>\<open>impl\<close>.
  \<^verbatim>\<open>vi.spyOn(target, method)\<close>: the target with that method replaced by one that records
  each call and then runs the original.
\<close>

definition viFn :: "string \<Rightarrow> event list middleware \<Rightarrow> event list middleware" where
  "viFn label impl next args s = impl next args (s @ [SpyCall label args])"

definition spyOn :: "event list provider \<Rightarrow> string \<Rightarrow> event list provider" where
  "spyOn target method =
     target (StrKey method \<mapsto>
       Function (\<lambda>args s. callMember target (StrKey method) args (s @ [SpyCall method args])))"

text \<open>
  \<^verbatim>\<open>dataProviderWithCustomMethod\<close> (test file, lines 133 to 138): a base provider extended
  with \<^verbatim>\<open>customMethod\<close>, which resolves with \<^verbatim>\<open>{ data: "done" }\<close>. The base is a parameter:
  \<^verbatim>\<open>ra-data-fakerest\<close> is not code of this repository.
\<close>

definition dataProviderWithCustomMethod :: "'s provider \<Rightarrow> 's provider" where
  "dataProviderWithCustomMethod baseDataProvider =
     baseDataProvider (StrKey ''customMethod'' \<mapsto>
       Function (\<lambda>args s. (Inr (JResolved (JObj [(''data'', JStr ''done'')])), s)))"

text \<open>
  The \<^verbatim>\<open>params\<close> that the tests pass to \<^verbatim>\<open>update\<close> (test file, lines 98 to 102).
\<close>

definition updateParams :: jsval where
  "updateParams =
     JObj [(''id'', JNum 1),
           (''data'', JObj [(''id'', JNum 1), (''title'', JStr ''Hello, world!'')]),
           (''previousData'', JObj [(''id'', JNum 1), (''title'', JStr ''Hello, world!'')])]"

section \<open>The chain, unfolded\<close>

lemma reduceRightFrom_foldr:
  "k \<le> length xs \<Longrightarrow>
   reduceRightFrom callback xs k acc = foldr (\<lambda>x a. callback a x) (take k xs) acc"
proof (induction k arbitrary: acc)
  case 0
  show ?case by simp
next
  case (Suc k)
  from Suc.prems have lt: "k < length xs" by simp
  have "take (Suc k) xs = take k xs @ [xs ! k]"
    using lt by (rule take_Suc_conv_app_nth)
  with Suc.IH [of "callback acc (xs ! k)"] lt show ?case by simp
qed

lemma reduceRight_foldr:
  "reduceRight callback xs initialValue = foldr (\<lambda>x a. callback a x) xs initialValue"
  by (simp add: reduceRight_def reduceRightFrom_foldr)

lemma invokeChain_Nil:
  "invokeChain target [] method args = (\<lambda>a. callMember target (StrKey method) a)"
  by (simp add: invokeChain_def reduceRight_foldr)

lemma invokeChain_Cons:
  "invokeChain target (m # rest) method args =
     (\<lambda>ignored. m (invokeChain target rest method args) args)"
  by (simp add: invokeChain_def reduceRight_foldr)

lemma wrapped_call:
  "callMember (applyMiddlewares target middlewares) prop args s =
     proxyGet target middlewares prop args s"
  by (simp add: callMember_def applyMiddlewares_def)

lemma invokeChain_drop:
  "i < length mws \<Longrightarrow>
   invokeChain target (drop i mws) method args =
     (\<lambda>ignored. (mws ! i) (invokeChain target (drop (Suc i) mws) method args) args)"
proof -
  assume "i < length mws"
  then have "drop i mws = mws ! i # drop (Suc i) mws"
    by (simp add: Cons_nth_drop_Suc)
  then show ?thesis
    by (simp add: invokeChain_Cons)
qed

text \<open>
  A chain of middlewares that all hand their own arguments to \<^verbatim>\<open>next\<close> ends in the base
  operation, called with the arguments of the intercepted call.
\<close>

lemma invokeChain_forwarders:
  "invokeChain target (replicate (Suc n) (\<lambda>next a. next a)) method args a =
     callMember target (StrKey method) args"
proof (induction n arbitrary: a)
  case 0
  show ?case by (simp add: invokeChain_Cons invokeChain_Nil)
next
  case (Suc n)
  have "invokeChain target (replicate (Suc (Suc n)) (\<lambda>next a. next a)) method args a =
        invokeChain target (replicate (Suc n) (\<lambda>next a. next a)) method args args"
    by (simp add: invokeChain_Cons)
  with Suc.IH show ?case by simp
qed

lemma proxyGet_StrKey:
  "proxyGet target middlewares (StrKey method) args =
     invokeChain target (case middlewares method of None \<Rightarrow> [] | Some ms \<Rightarrow> ms) method args
       (JStr method # args)"
  by (simp add: proxyGet_def)

lemma proxyGet_SymKey:
  "proxyGet target middlewares (SymKey k) args = callMember target (SymKey k) args"
  by (simp add: proxyGet_def)

lemma call_registered:
  "callMember (applyMiddlewares target (middlewares(method \<mapsto> mws))) (StrKey method) args s =
     invokeChain target mws method args (JStr method # args) s"
  by (simp add: wrapped_call proxyGet_StrKey)

text \<open>
  With no middleware for the method, the chain is its initial value, and the proxy calls it
  as it calls every chain: with the method name before the arguments.
\<close>

lemma call_unregistered:
  "middlewares method = None \<or> middlewares method = Some [] \<Longrightarrow>
   callMember (applyMiddlewares target middlewares) (StrKey method) args s =
     callMember target (StrKey method) (JStr method # args) s"
  by (auto simp add: wrapped_call proxyGet_StrKey invokeChain_Nil)

lemma callMember_Function:
  "callMember (target(prop \<mapsto> Function f)) prop args s = f args s"
  by (simp add: callMember_def)

lemma callMember_spyOn:
  "callMember (spyOn target method) (StrKey method) args s =
     callMember target (StrKey method) args (s @ [SpyCall method args])"
  by (simp add: callMember_def spyOn_def)

lemma callMember_customMethod:
  "callMember (dataProviderWithCustomMethod base) (StrKey ''customMethod'') args s =
     (Inr (JResolved (JObj [(''data'', JStr ''done'')])), s)"
  by (simp add: callMember_def dataProviderWithCustomMethod_def)

section \<open>The claims\<close>

subsection \<open>C1: an operation without middlewares\<close>

text \<open>
  Claim C1: for an operation whose middleware list is empty or absent, calling the wrapped
  provider is the same as calling the base provider with the same arguments. The code does
  not do that: the empty fold leaves the initial value as the chain, and line 50 calls the
  chain with \<^verbatim>\<open>(method, ...args)\<close>, so the base method receives its own name as its first
  argument. Below, \<^verbatim>\<open>customMethod({ value: true })\<close> on a provider wrapped with an empty
  registry: the spy on the base method records \<^verbatim>\<open>("customMethod", { value: true })\<close>, where a
  direct call records \<^verbatim>\<open>({ value: true })\<close>.
\<close>

theorem C1_empty_chain_passes_method_name_to_base:
  "callMember
     (applyMiddlewares (spyOn (dataProviderWithCustomMethod Map.empty) ''customMethod'') Map.empty)
     (StrKey ''customMethod'') [JObj [(''value'', JBool True)]] []
   = (Inr (JResolved (JObj [(''data'', JStr ''done'')])),
      [SpyCall ''customMethod'' [JStr ''customMethod'', JObj [(''value'', JBool True)]]])
   \<and>
   callMember (spyOn (dataProviderWithCustomMethod Map.empty) ''customMethod'')
     (StrKey ''customMethod'') [JObj [(''value'', JBool True)]] []
   = (Inr (JResolved (JObj [(''data'', JStr ''done'')])),
      [SpyCall ''customMethod'' [JObj [(''value'', JBool True)]]])"
  by (simp add: call_unregistered callMember_spyOn callMember_customMethod)

subsection \<open>C2: what a middleware receives\<close>

text \<open>
  The claim as stated, that a middleware receives the operation name before the call
  arguments, fails on the test "should call the middlewares for custom methods": the spied
  logging middleware, registered twice for \<^verbatim>\<open>customMethod\<close>, is called with
  \<^verbatim>\<open>({ value: true })\<close> both times and never with \<^verbatim>\<open>("customMethod", { value: true })\<close>.
\<close>

theorem C2_counterexample:
  "snd (callMember
     (applyMiddlewares (dataProviderWithCustomMethod Map.empty)
        (Map.empty(''customMethod'' \<mapsto>
           [viFn ''spy'' (loggingMiddleware ''customMethod''),
            viFn ''spy'' (loggingMiddleware ''customMethod'')])))
     (StrKey ''customMethod'') [JObj [(''value'', JBool True)]] [])
   = [SpyCall ''spy'' [JObj [(''value'', JBool True)]],
      ConsoleLog [JStr ''customMethod'', JObj [(''value'', JBool True)]],
      SpyCall ''spy'' [JObj [(''value'', JBool True)]],
      ConsoleLog [JStr ''customMethod'', JObj [(''value'', JBool True)]]]
   \<and> SpyCall ''spy'' [JStr ''customMethod'', JObj [(''value'', JBool True)]]
     \<notin> set (snd (callMember
     (applyMiddlewares (dataProviderWithCustomMethod Map.empty)
        (Map.empty(''customMethod'' \<mapsto>
           [viFn ''spy'' (loggingMiddleware ''customMethod''),
            viFn ''spy'' (loggingMiddleware ''customMethod'')])))
     (StrKey ''customMethod'') [JObj [(''value'', JBool True)]] []))"
  by (simp add: call_registered invokeChain_Cons invokeChain_Nil viFn_def loggingMiddleware_def
      callMember_customMethod)

text \<open>
  Claim C2, amended: for an operation with a configured middleware list \<open>mws\<close>, the proxy
  calls the folded chain with the operation name followed by the call arguments, and the
  closure built for the middleware at any position \<open>i\<close>, whatever arguments \<open>a\<close> it is
  called with, calls that middleware with the closure of position \<open>i + 1\<close> as \<^verbatim>\<open>next\<close>
  and, after it, exactly the arguments \<open>args\<close> of the intercepted call, without the
  operation name.
\<close>

theorem C2_each_middleware_receives_the_call_arguments:
  "i < length mws \<Longrightarrow>
   callMember (applyMiddlewares target (middlewares(method \<mapsto> mws))) (StrKey method) args s =
     invokeChain target (drop 0 mws) method args (JStr method # args) s
   \<and> invokeChain target (drop i mws) method args a s =
     (mws ! i) (invokeChain target (drop (Suc i) mws) method args) args s"
proof -
  assume lt: "i < length mws"
  then have "drop i mws = mws ! i # drop (Suc i) mws"
    by (simp add: Cons_nth_drop_Suc)
  then show ?thesis
    by (simp add: call_registered invokeChain_Cons)
qed

theorem C2_witness:
  "(1::nat) < length [viFn ''first'' (\<lambda>next a. next a), viFn ''second'' (\<lambda>next a. next a)]
   \<and> callMember
        (applyMiddlewares (dataProviderWithCustomMethod Map.empty)
           (Map.empty(''customMethod'' \<mapsto>
              [viFn ''first'' (\<lambda>next a. next a), viFn ''second'' (\<lambda>next a. next a)])))
        (StrKey ''customMethod'') [JBool True] []
      = invokeChain (dataProviderWithCustomMethod Map.empty)
          (drop 0 [viFn ''first'' (\<lambda>next a. next a), viFn ''second'' (\<lambda>next a. next a)])
          ''customMethod'' [JBool True] [JStr ''customMethod'', JBool True] []
   \<and> invokeChain (dataProviderWithCustomMethod Map.empty)
        (drop 1 [viFn ''first'' (\<lambda>next a. next a), viFn ''second'' (\<lambda>next a. next a)])
        ''customMethod'' [JBool True] [JNull] []
      = (Inr (JResolved (JObj [(''data'', JStr ''done'')])), [SpyCall ''second'' [JBool True]])"
  using C2_each_middleware_receives_the_call_arguments
    [of 1 "[viFn ''first'' (\<lambda>next a. next a), viFn ''second'' (\<lambda>next a. next a)]"
        "dataProviderWithCustomMethod Map.empty" Map.empty "''customMethod''" "[JBool True]"
        "[]" "[JNull]"]
  by (simp add: viFn_def invokeChain_Nil callMember_customMethod)

subsection \<open>C3: arguments rewritten before \<open>next\<close>\<close>

text \<open>
  Claim C3: the arguments that a middleware passes to its \<^verbatim>\<open>next\<close> are the arguments with
  which the downstream middlewares and the base operation run. The code keeps that promise
  for the last middleware of a list only: the \<^verbatim>\<open>next\<close> of every other middleware is a
  closure of no parameter (line 41), which drops what it is called with. Below, \<^verbatim>\<open>update\<close>
  is configured with the audit middleware followed by a spied middleware that hands its
  arguments on: the second middleware and the base \<^verbatim>\<open>update\<close> both see the caller's
  \<^verbatim>\<open>params\<close>, and the \<^verbatim>\<open>updatedAt\<close> that the audit middleware added is lost.
\<close>

theorem C3_rewritten_arguments_lost_before_second_middleware:
  "callMember
     (applyMiddlewares
        (spyOn (Map.empty(StrKey ''update'' \<mapsto> Function (\<lambda>args s. (Inr (JResolved JNull), s)))) ''update'')
        (Map.empty(''update'' \<mapsto> [auditLogMiddleware ''2024-01-01T00:00:00.000Z'', viFn ''second'' (\<lambda>next a. next a)])))
     (StrKey ''update'') [JStr ''posts'', updateParams] []
   = (Inr (JResolved JNull),
      [SpyCall ''second'' [JStr ''posts'', updateParams],
       SpyCall ''update'' [JStr ''posts'', updateParams]])"
  by (simp add: call_registered invokeChain_Cons invokeChain_Nil viFn_def auditLogMiddleware_def
      callMember_spyOn nthArg_def updateParams_def callMember_Function)

text \<open>
  The audit middleware alone, as in the test "should allow to alter the dataProvider
  parameters": the base \<^verbatim>\<open>update\<close> is called with \<^verbatim>\<open>updatedAt\<close> added to \<^verbatim>\<open>data\<close> and
  with \<^verbatim>\<open>previousData\<close> as the caller gave it.
\<close>

lemma auditLog_alone_reaches_base:
  "callMember
     (applyMiddlewares (spyOn target ''update'')
        (middlewares(''update'' \<mapsto> [auditLogMiddleware now])))
     (StrKey ''update'') [JStr ''posts'', updateParams] s
   = callMember target (StrKey ''update'')
       [JStr ''posts'',
        JObj [(''id'', JNum 1),
           (''data'', JObj [(''id'', JNum 1), (''title'', JStr ''Hello, world!''), (''updatedAt'', JStr now)]),
           (''previousData'', JObj [(''id'', JNum 1), (''title'', JStr ''Hello, world!'')])]]
       (s @ [SpyCall ''update'' [JStr ''posts'',
        JObj [(''id'', JNum 1),
           (''data'', JObj [(''id'', JNum 1), (''title'', JStr ''Hello, world!''), (''updatedAt'', JStr now)]),
           (''previousData'', JObj [(''id'', JNum 1), (''title'', JStr ''Hello, world!'')])]]])"
  by (simp add: call_registered invokeChain_Cons invokeChain_Nil auditLogMiddleware_def
      callMember_spyOn nthArg_def updateParams_def Let_def)

subsection \<open>C4: the order of two middlewares\<close>

text \<open>
  Claim C4: with the list \<^verbatim>\<open>[m1, m2]\<close>, the wrapped operation invokes \<open>m1\<close> first;
  \<open>m2\<close> runs only if \<open>m1\<close> calls its \<^verbatim>\<open>next\<close>, and the base operation runs last, only if
  \<open>m2\<close> calls its \<^verbatim>\<open>next\<close>. The call is \<open>m1\<close> applied to a \<^verbatim>\<open>next\<close> that holds \<open>m2\<close>, whose
  own \<^verbatim>\<open>next\<close> holds the base operation; an \<open>m1\<close> that does not use its \<^verbatim>\<open>next\<close> decides
  the call alone, whatever \<open>m2\<close> and the base provider are; an \<open>m2\<close> that does not use
  its \<^verbatim>\<open>next\<close> leaves the base provider out. With spies on both middlewares and on the base
  method, the calls are recorded in the order \<open>m1\<close>, \<open>m2\<close>, base.
\<close>

theorem C4_first_listed_runs_first:
  "callMember (applyMiddlewares target (middlewares(method \<mapsto> [m1, m2]))) (StrKey method) args s
     = m1 (\<lambda>a. m2 (\<lambda>a'. callMember target (StrKey method) a') args) args s
   \<and> callMember (applyMiddlewares target (middlewares(method \<mapsto> [(\<lambda>next. k1), m2])))
       (StrKey method) args s
     = k1 args s
   \<and> callMember (applyMiddlewares target (middlewares(method \<mapsto> [m1, (\<lambda>next. k2)])))
       (StrKey method) args s
     = m1 (\<lambda>a. k2 args) args s
   \<and> callMember
       (applyMiddlewares (spyOn base method)
          (registry(method \<mapsto> [viFn ''m1'' (\<lambda>next a. next a), viFn ''m2'' (\<lambda>next a. next a)])))
       (StrKey method) args t
     = callMember base (StrKey method) args
         (t @ [SpyCall ''m1'' args, SpyCall ''m2'' args, SpyCall method args])
   \<and> callMember
       (applyMiddlewares (spyOn base method)
          (registry(method \<mapsto> [viFn ''m1'' (\<lambda>next a. next a), viFn ''m2'' (\<lambda>next a t. (Inr v, t))])))
       (StrKey method) args t
     = (Inr v, t @ [SpyCall ''m1'' args, SpyCall ''m2'' args])
   \<and> callMember
       (applyMiddlewares (spyOn base method)
          (registry(method \<mapsto> [viFn ''m1'' (\<lambda>next a t. (Inr v, t)), viFn ''m2'' (\<lambda>next a. next a)])))
       (StrKey method) args t
     = (Inr v, t @ [SpyCall ''m1'' args])"
  by (simp add: call_registered invokeChain_Cons invokeChain_Nil viFn_def callMember_spyOn)

subsection \<open>C5: bypassing the base operation\<close>

text \<open>
  Claim C5: a middleware that returns without calling its \<^verbatim>\<open>next\<close> when its condition
  \<open>C\<close> holds decides the result: what the layer above it receives is its own value, and
  neither the rest of the list nor the base provider takes part; when \<open>C\<close> does not hold
  and it calls \<^verbatim>\<open>next\<close>, the rest of the chain runs, which for a single middleware is the
  base operation on the arguments passed. The test "should allow to bypass the
  dataProvider method" is the instance: for \<^verbatim>\<open>"posts"\<close> with \<^verbatim>\<open>data\<close> equal to
  \<^verbatim>\<open>previousData\<close> the spy on the base \<^verbatim>\<open>update\<close> records nothing and the caller receives a
  promise resolved with \<^verbatim>\<open>{ data: previousData }\<close>; for \<^verbatim>\<open>"comments"\<close> the base \<^verbatim>\<open>update\<close>
  is called with the original arguments.
\<close>

theorem C5_bypass:
  "callMember
     (applyMiddlewares target
        (middlewares(method \<mapsto> (\<lambda>next a. if C a then k a else next a) # rest)))
     (StrKey method) args s
     = (if C args then k args s else invokeChain target rest method args args s)
   \<and> invokeChain target ((\<lambda>next a. if C a then k a else next a) # rest) method args a s
     = (if C args then k args s else invokeChain target rest method args args s)
   \<and> callMember
       (applyMiddlewares target (middlewares(method \<mapsto> [\<lambda>next a. if C a then k a else next a])))
       (StrKey method) args s
     = (if C args then k args s else callMember target (StrKey method) args s)
   \<and> callMember
       (applyMiddlewares (spyOn base ''update'')
          (registry(''update'' \<mapsto> [dontUpdateMainResourceMiddleware (=)])))
       (StrKey ''update'') [JStr ''posts'', updateParams] t
     = (Inr (JResolved (JObj [(''data'',
          JObj [(''id'', JNum 1), (''title'', JStr ''Hello, world!'')])])), t)
   \<and> callMember
       (applyMiddlewares (spyOn base ''update'')
          (registry(''update'' \<mapsto> [dontUpdateMainResourceMiddleware (=)])))
       (StrKey ''update'') [JStr ''comments'', updateParams] t
     = callMember base (StrKey ''update'') [JStr ''comments'', updateParams]
         (t @ [SpyCall ''update'' [JStr ''comments'', updateParams]])"
  by (simp add: call_registered invokeChain_Cons invokeChain_Nil callMember_spyOn
      dontUpdateMainResourceMiddleware_def nthArg_def updateParams_def Let_def)

subsection \<open>C6: failures pass through the proxy\<close>

text \<open>
  The claim as stated, that a rejection produced by the base operation passes every
  enclosing layer and is what the caller of the proxy observes, fails with the logging
  middleware of the test file, which calls \<^verbatim>\<open>next(...args)\<close> and does not return its
  result: over a base \<^verbatim>\<open>update\<close> that returns a rejected promise, the caller of the wrapped
  \<^verbatim>\<open>update\<close> receives \<^verbatim>\<open>undefined\<close>.
\<close>

theorem C6_counterexample:
  "callMember
     (applyMiddlewares
        (Map.empty(StrKey ''update'' \<mapsto>
           Function (\<lambda>args s. (Inr (JRejected (JStr ''boom'')), s))))
        (Map.empty(''update'' \<mapsto> [loggingMiddleware ''update''])))
     (StrKey ''update'') [JStr ''posts''] []
   = (Inr JUndefined, [ConsoleLog [JStr ''update'', JStr ''posts'']])
   \<and> callMember
       (Map.empty(StrKey ''update'' \<mapsto>
          Function (\<lambda>args s. (Inr (JRejected (JStr ''boom'')), s))))
       (StrKey ''update'') [JStr ''posts''] [ConsoleLog [JStr ''update'', JStr ''posts'']]
     = (Inr (JRejected (JStr ''boom'')), [ConsoleLog [JStr ''update'', JStr ''posts'']])"
  by (simp add: call_registered invokeChain_Cons invokeChain_Nil loggingMiddleware_def
      callMember_Function)

text \<open>
  Claim C6, amended: the proxy contains no catch, rewrap or translation boundary. Every
  layer that the proxy itself builds hands on, unmodified and with the state, the
  completion \<open>c\<close> of what it calls, a thrown error or a returned value such as a rejected
  promise: the initial value of the fold hands on the completion of the base method; the
  closure around a middleware hands on the completion of that middleware, and so does the
  function of a string key whose list starts with that middleware; the function of a
  string key whose list is empty or absent hands on the completion of the call of the base
  method that it makes; the function of a symbol key hands on the completion of the base
  property. Hence the failure of the outermost middleware, and the failure of the base
  operation under any number of middlewares that return what \<^verbatim>\<open>next\<close> returns, is exactly
  what the caller observes. Whether a failure from further down passes an enclosing
  middleware is decided by that middleware: through the logging middleware an error that
  the base method throws reaches the caller unchanged (the last conjunct), and a rejected
  promise that it returns does not.
\<close>

theorem C6_proxy_layers_hand_on_completions:
  "(callMember target (StrKey method) a s = c \<longrightarrow>
      invokeChain target [] method args a s = c)
   \<and> (m (invokeChain target rest method args) args s = c \<longrightarrow>
      invokeChain target (m # rest) method args a s = c
      \<and> callMember (applyMiddlewares target (middlewares(method \<mapsto> m # rest)))
          (StrKey method) args s = c)
   \<and> ((middlewares method = None \<or> middlewares method = Some [])
        \<and> callMember target (StrKey method) (JStr method # args) s = c \<longrightarrow>
      callMember (applyMiddlewares target middlewares) (StrKey method) args s = c)
   \<and> (callMember target (StrKey method) args s = c \<longrightarrow>
      callMember
        (applyMiddlewares target
           (middlewares(method \<mapsto> replicate (Suc n) (\<lambda>next a. next a))))
        (StrKey method) args s = c)
   \<and> (callMember target (SymKey k) args s = c \<longrightarrow>
      callMember (applyMiddlewares target middlewares) (SymKey k) args s = c)
   \<and> (callMember base (StrKey method) args (t @ [ConsoleLog (JStr method # args)]) = (Inl e, t') \<longrightarrow>
      callMember
        (applyMiddlewares base (registry(method \<mapsto> [loggingMiddleware method])))
        (StrKey method) args t = (Inl e, t'))"
proof (intro conjI)
  show "callMember target (StrKey method) a s = c \<longrightarrow>
      invokeChain target [] method args a s = c"
    by (simp add: invokeChain_Nil)
  show "m (invokeChain target rest method args) args s = c \<longrightarrow>
      invokeChain target (m # rest) method args a s = c
      \<and> callMember (applyMiddlewares target (middlewares(method \<mapsto> m # rest)))
          (StrKey method) args s = c"
    by (simp add: call_registered invokeChain_Cons)
  show "(middlewares method = None \<or> middlewares method = Some [])
        \<and> callMember target (StrKey method) (JStr method # args) s = c \<longrightarrow>
      callMember (applyMiddlewares target middlewares) (StrKey method) args s = c"
    by (auto simp add: call_unregistered)
  show "callMember target (StrKey method) args s = c \<longrightarrow>
      callMember
        (applyMiddlewares target
           (middlewares(method \<mapsto> replicate (Suc n) (\<lambda>next a. next a))))
        (StrKey method) args s = c"
    by (simp only: call_registered invokeChain_forwarders) simp
  show "callMember target (SymKey k) args s = c \<longrightarrow>
      callMember (applyMiddlewares target middlewares) (SymKey k) args s = c"
    by (simp add: wrapped_call proxyGet_SymKey)
  show "callMember base (StrKey method) args (t @ [ConsoleLog (JStr method # args)]) = (Inl e, t') \<longrightarrow>
      callMember
        (applyMiddlewares base (registry(method \<mapsto> [loggingMiddleware method])))
        (StrKey method) args t = (Inl e, t')"
    by (simp add: call_registered invokeChain_Cons invokeChain_Nil loggingMiddleware_def)
qed

theorem C6_witness:
  "callMember
     (Map.empty(StrKey ''update'' \<mapsto> Function (\<lambda>args (s::event list). (Inl (Thrown (JStr ''boom'')), s)),
                SymKey ''dispose'' \<mapsto> Function (\<lambda>args (s::event list). (Inl (Thrown (JStr ''boom'')), s))))
     (StrKey ''update'') [JStr ''posts''] [] = (Inl (Thrown (JStr ''boom'')), [])
   \<and> callMember
     (Map.empty(StrKey ''update'' \<mapsto> Function (\<lambda>args (s::event list). (Inl (Thrown (JStr ''boom'')), s)),
                SymKey ''dispose'' \<mapsto> Function (\<lambda>args (s::event list). (Inl (Thrown (JStr ''boom'')), s))))
     (StrKey ''update'') [JStr ''update'', JStr ''posts''] [] = (Inl (Thrown (JStr ''boom'')), [])
   \<and> callMember
     (Map.empty(StrKey ''update'' \<mapsto> Function (\<lambda>args (s::event list). (Inl (Thrown (JStr ''boom'')), s)),
                SymKey ''dispose'' \<mapsto> Function (\<lambda>args (s::event list). (Inl (Thrown (JStr ''boom'')), s))))
     (SymKey ''dispose'') [JStr ''posts''] [] = (Inl (Thrown (JStr ''boom'')), [])
   \<and> (Map.empty :: event list registry) ''update'' = None
   \<and> invokeChain
     (Map.empty(StrKey ''update'' \<mapsto> Function (\<lambda>args (s::event list). (Inl (Thrown (JStr ''boom'')), s)),
                SymKey ''dispose'' \<mapsto> Function (\<lambda>args (s::event list). (Inl (Thrown (JStr ''boom'')), s))))
     [] ''update'' [JStr ''posts''] [JStr ''posts''] [] = (Inl (Thrown (JStr ''boom'')), [])
   \<and> callMember
     (applyMiddlewares
       (Map.empty(StrKey ''update'' \<mapsto> Function (\<lambda>args (s::event list). (Inl (Thrown (JStr ''boom'')), s)),
                SymKey ''dispose'' \<mapsto> Function (\<lambda>args (s::event list). (Inl (Thrown (JStr ''boom'')), s))))
       (Map.empty(''update'' \<mapsto> [\<lambda>next a. next a])))
     (StrKey ''update'') [JStr ''posts''] [] = (Inl (Thrown (JStr ''boom'')), [])
   \<and> callMember
     (applyMiddlewares
       (Map.empty(StrKey ''update'' \<mapsto> Function (\<lambda>args (s::event list). (Inl (Thrown (JStr ''boom'')), s)),
                SymKey ''dispose'' \<mapsto> Function (\<lambda>args (s::event list). (Inl (Thrown (JStr ''boom'')), s))))
       Map.empty)
     (StrKey ''update'') [JStr ''posts''] [] = (Inl (Thrown (JStr ''boom'')), [])
   \<and> callMember
     (applyMiddlewares
       (Map.empty(StrKey ''update'' \<mapsto> Function (\<lambda>args (s::event list). (Inl (Thrown (JStr ''boom'')), s)),
                SymKey ''dispose'' \<mapsto> Function (\<lambda>args (s::event list). (Inl (Thrown (JStr ''boom'')), s))))
       (Map.empty(''update'' \<mapsto> replicate (Suc 2) (\<lambda>next a. next a))))
     (StrKey ''update'') [JStr ''posts''] [] = (Inl (Thrown (JStr ''boom'')), [])
   \<and> callMember
     (applyMiddlewares
       (Map.empty(StrKey ''update'' \<mapsto> Function (\<lambda>args (s::event list). (Inl (Thrown (JStr ''boom'')), s)),
                SymKey ''dispose'' \<mapsto> Function (\<lambda>args (s::event list). (Inl (Thrown (JStr ''boom'')), s))))
       Map.empty)
     (SymKey ''dispose'') [JStr ''posts''] [] = (Inl (Thrown (JStr ''boom'')), [])
   \<and> callMember
     (applyMiddlewares
       (Map.empty(StrKey ''update'' \<mapsto> Function (\<lambda>args (s::event list). (Inl (Thrown (JStr ''boom'')), s)),
                SymKey ''dispose'' \<mapsto> Function (\<lambda>args (s::event list). (Inl (Thrown (JStr ''boom'')), s))))
       (Map.empty(''update'' \<mapsto> [loggingMiddleware ''update''])))
     (StrKey ''update'') [JStr ''posts''] []
     = (Inl (Thrown (JStr ''boom'')), [ConsoleLog [JStr ''update'', JStr ''posts'']])"
proof -
  let ?t = "Map.empty(StrKey ''update'' \<mapsto> Function (\<lambda>args s. (Inl (Thrown (JStr ''boom'')), s)),
                SymKey ''dispose'' \<mapsto>
                  Function (\<lambda>args (s::event list). (Inl (Thrown (JStr ''boom'')), s)))"
  have h1: "callMember ?t (StrKey ''update'') [JStr ''posts''] [] = (Inl (Thrown (JStr ''boom'')), [])"
    by (simp add: callMember_def)
  have h2: "callMember ?t (SymKey ''dispose'') [JStr ''posts''] [] = (Inl (Thrown (JStr ''boom'')), [])"
    by (simp add: callMember_def)
  have h3: "(\<lambda>next a. next a) (invokeChain ?t [] ''update'' [JStr ''posts'']) [JStr ''posts''] []
      = (Inl (Thrown (JStr ''boom'')), [])"
    by (simp add: invokeChain_Nil callMember_def)
  have h4: "callMember ?t (StrKey ''update'') [JStr ''update'', JStr ''posts''] []
      = (Inl (Thrown (JStr ''boom'')), [])"
    by (simp add: callMember_def)
  have h5: "callMember ?t (StrKey ''update'') [JStr ''posts'']
        ([] @ [ConsoleLog [JStr ''update'', JStr ''posts'']])
      = (Inl (Thrown (JStr ''boom'')), [ConsoleLog [JStr ''update'', JStr ''posts'']])"
    by (simp add: callMember_def)
  show ?thesis
    using h1 h2 h3 h4 h5
      C6_proxy_layers_hand_on_completions
        [of ?t "''update''" "[JStr ''posts'']" "[]" "(Inl (Thrown (JStr ''boom'')), [])"
            "[JStr ''posts'']" "\<lambda>next a. next a" "[]" Map.empty 2 "''dispose''"
            ?t "[]" "Thrown (JStr ''boom'')" "[ConsoleLog [JStr ''update'', JStr ''posts'']]"
            Map.empty]
    by simp
qed

subsection \<open>C7: an operation missing from the base provider\<close>

text \<open>
  Claim C7: wrapping validates nothing. For an operation name that the registry lists and
  the base provider lacks, the wrapped provider still answers the property access with a
  function; the failure is the \<^verbatim>\<open>TypeError\<close> of the initial value of the fold calling
  \<^verbatim>\<open>target[method]\<close>, which the caller gets when the chain reaches it (an empty list, or a
  middleware that calls \<^verbatim>\<open>next\<close>), and does not get when a middleware returns without
  calling \<^verbatim>\<open>next\<close>.
\<close>

theorem C7_missing_operation_fails_at_call_time:
  "target (StrKey method) = None \<Longrightarrow>
   applyMiddlewares target (middlewares(method \<mapsto> mws)) (StrKey method)
     = Some (Function (proxyGet target (middlewares(method \<mapsto> mws)) (StrKey method)))
   \<and> invokeChain target [] method args a s = (Inl NotAFunction, s)
   \<and> callMember (applyMiddlewares target (middlewares(method \<mapsto> []))) (StrKey method) args s
     = (Inl NotAFunction, s)
   \<and> callMember (applyMiddlewares target (middlewares(method \<mapsto> [\<lambda>next a. next a])))
       (StrKey method) args s
     = (Inl NotAFunction, s)
   \<and> callMember (applyMiddlewares target (middlewares(method \<mapsto> [\<lambda>next a t. (Inr v, t)])))
       (StrKey method) args s
     = (Inr v, s)"
  by (simp add: call_registered invokeChain_Cons invokeChain_Nil)
    (simp add: callMember_def applyMiddlewares_def)

theorem C7_witness:
  "(Map.empty :: unit provider) (StrKey ''missing'') = None
   \<and> (\<exists>f. applyMiddlewares (Map.empty :: unit provider)
              (Map.empty(''missing'' \<mapsto> [\<lambda>next a. next a])) (StrKey ''missing'')
            = Some (Function f))
   \<and> callMember
        (applyMiddlewares (Map.empty :: unit provider) (Map.empty(''missing'' \<mapsto> [\<lambda>next a. next a])))
        (StrKey ''missing'') [JNum 1] () = (Inl NotAFunction, ())
   \<and> callMember
        (applyMiddlewares (Map.empty :: unit provider) (Map.empty(''missing'' \<mapsto> [])))
        (StrKey ''missing'') [JNum 1] () = (Inl NotAFunction, ())
   \<and> callMember
        (applyMiddlewares (Map.empty :: unit provider)
           (Map.empty(''missing'' \<mapsto> [\<lambda>next a t. (Inr (JNum 7), t)])))
        (StrKey ''missing'') [JNum 1] () = (Inr (JNum 7), ())"
  using C7_missing_operation_fails_at_call_time
    [of "Map.empty :: unit provider" "''missing''" Map.empty "[\<lambda>next a. next a]" "[JNum 1]"
        "[JNum 1]" "()" "JNum 7"]
  by simp

subsection \<open>C8: properties that are not operations\<close>

text \<open>
  Claim C8: the wrapped provider has the shape of the base provider, and a property that
  is not a function passes through unchanged. The code does not do that: the \<^verbatim>\<open>get\<close> trap
  answers every property access with a new function (line 33), and no branch returns
  \<^verbatim>\<open>target[prop]\<close> itself, although the result is typed as the base provider's type and
  \<^verbatim>\<open>DataProviderMethods\<close> leaves \<^verbatim>\<open>supportAbortSignal\<close> out as a property that is not a
  method. Below, a base provider with \<^verbatim>\<open>supportAbortSignal: true\<close>, wrapped with an empty
  registry: the base holds \<^verbatim>\<open>true\<close> under that key, the wrapped provider holds a function,
  and calling that function throws the \<^verbatim>\<open>TypeError\<close> of a call on a non-function.
\<close>

theorem C8_non_function_property_reads_as_function:
  "((dataProviderWithCustomMethod Map.empty)(StrKey ''supportAbortSignal'' \<mapsto> Data (JBool True)))
     (StrKey ''supportAbortSignal'') = Some (Data (JBool True) :: unit property)
   \<and> applyMiddlewares
       ((dataProviderWithCustomMethod Map.empty)(StrKey ''supportAbortSignal'' \<mapsto> Data (JBool True)))
       (Map.empty :: unit registry) (StrKey ''supportAbortSignal'')
     \<noteq> ((dataProviderWithCustomMethod Map.empty)(StrKey ''supportAbortSignal'' \<mapsto> Data (JBool True)))
         (StrKey ''supportAbortSignal'')
   \<and> (\<exists>f. applyMiddlewares
       ((dataProviderWithCustomMethod Map.empty)(StrKey ''supportAbortSignal'' \<mapsto> Data (JBool True)))
       (Map.empty :: unit registry) (StrKey ''supportAbortSignal'') = Some (Function f))
   \<and> callMember
       (applyMiddlewares
          ((dataProviderWithCustomMethod Map.empty)(StrKey ''supportAbortSignal'' \<mapsto> Data (JBool True)))
          (Map.empty :: unit registry))
       (StrKey ''supportAbortSignal'') [] () = (Inl NotAFunction, ())"
proof (intro conjI)
  show "((dataProviderWithCustomMethod Map.empty)(StrKey ''supportAbortSignal'' \<mapsto> Data (JBool True)))
     (StrKey ''supportAbortSignal'') = Some (Data (JBool True) :: unit property)"
    by simp
  show "applyMiddlewares
       ((dataProviderWithCustomMethod Map.empty)(StrKey ''supportAbortSignal'' \<mapsto> Data (JBool True)))
       (Map.empty :: unit registry) (StrKey ''supportAbortSignal'')
     \<noteq> ((dataProviderWithCustomMethod Map.empty)(StrKey ''supportAbortSignal'' \<mapsto> Data (JBool True)))
         (StrKey ''supportAbortSignal'')"
    by (simp add: applyMiddlewares_def)
  show "\<exists>f. applyMiddlewares
       ((dataProviderWithCustomMethod Map.empty)(StrKey ''supportAbortSignal'' \<mapsto> Data (JBool True)))
       (Map.empty :: unit registry) (StrKey ''supportAbortSignal'') = Some (Function f)"
    by (simp add: applyMiddlewares_def)
  show "callMember
       (applyMiddlewares
          ((dataProviderWithCustomMethod Map.empty)(StrKey ''supportAbortSignal'' \<mapsto> Data (JBool True)))
          (Map.empty :: unit registry))
       (StrKey ''supportAbortSignal'') [] () = (Inl NotAFunction, ())"
    by (simp add: call_unregistered) (simp add: callMember_def)
qed

text \<open>
  What the trap does for every key: it answers with a function; and under a symbol key
  that function calls the base provider's property with the same arguments.
\<close>

lemma every_access_yields_a_function:
  "\<exists>f. applyMiddlewares target middlewares prop = Some (Function f)"
  by (simp add: applyMiddlewares_def)

lemma symbol_key_call_is_forwarded:
  "callMember (applyMiddlewares target middlewares) (SymKey k) args s
     = callMember target (SymKey k) args s"
  by (simp add: wrapped_call proxyGet_SymKey)

subsection \<open>C9: the same middleware registered twice\<close>

text \<open>
  Claim C9: when one middleware stands twice in the list of an operation, one call of the
  wrapped operation invokes it twice, the first occurrence wrapping the second, provided
  the outer occurrence calls its \<^verbatim>\<open>next\<close>. The call is the spied middleware applied to a
  \<^verbatim>\<open>next\<close> that holds the spied middleware again; for the logging middleware of the tests
  the spy records two calls, both before the base method runs; a middleware that never
  calls \<^verbatim>\<open>next\<close> is recorded once; and in the test "should call the middlewares for custom
  methods" the spy holds exactly two calls with \<^verbatim>\<open>({ value: true })\<close>.
\<close>

theorem C9_same_middleware_twice:
  "callMember (applyMiddlewares target (middlewares(method \<mapsto> [viFn l m, viFn l m])))
     (StrKey method) args s
     = viFn l m (\<lambda>ignored. viFn l m (\<lambda>a. callMember target (StrKey method) a) args) args s
   \<and> callMember
       (applyMiddlewares target
          (middlewares(method \<mapsto>
             [viFn l (loggingMiddleware method), viFn l (loggingMiddleware method)])))
       (StrKey method) args s
     = (case callMember target (StrKey method) args
               (s @ [SpyCall l args, ConsoleLog (JStr method # args),
                     SpyCall l args, ConsoleLog (JStr method # args)]) of
          (Inl e, s') \<Rightarrow> (Inl e, s')
        | (Inr v, s') \<Rightarrow> (Inr JUndefined, s'))
   \<and> callMember
       (applyMiddlewares target (middlewares(method \<mapsto> [viFn l (\<lambda>next. k), viFn l (\<lambda>next. k)])))
       (StrKey method) args s
     = k args (s @ [SpyCall l args])
   \<and> length (filter (\<lambda>e. e = SpyCall ''spy'' [JObj [(''value'', JBool True)]])
       (snd (callMember
          (applyMiddlewares (dataProviderWithCustomMethod Map.empty)
             (Map.empty(''customMethod'' \<mapsto>
                [viFn ''spy'' (loggingMiddleware ''customMethod''),
                 viFn ''spy'' (loggingMiddleware ''customMethod'')])))
          (StrKey ''customMethod'') [JObj [(''value'', JBool True)]] []))) = 2"
proof (intro conjI)
  show "callMember (applyMiddlewares target (middlewares(method \<mapsto> [viFn l m, viFn l m])))
     (StrKey method) args s
     = viFn l m (\<lambda>ignored. viFn l m (\<lambda>a. callMember target (StrKey method) a) args) args s"
    by (simp add: call_registered invokeChain_Cons invokeChain_Nil)
  show "callMember
       (applyMiddlewares target
          (middlewares(method \<mapsto>
             [viFn l (loggingMiddleware method), viFn l (loggingMiddleware method)])))
       (StrKey method) args s
     = (case callMember target (StrKey method) args
               (s @ [SpyCall l args, ConsoleLog (JStr method # args),
                     SpyCall l args, ConsoleLog (JStr method # args)]) of
          (Inl e, s') \<Rightarrow> (Inl e, s')
        | (Inr v, s') \<Rightarrow> (Inr JUndefined, s'))"
    by (simp add: call_registered invokeChain_Cons invokeChain_Nil viFn_def loggingMiddleware_def
        split: prod.splits sum.splits)
  show "callMember
       (applyMiddlewares target (middlewares(method \<mapsto> [viFn l (\<lambda>next. k), viFn l (\<lambda>next. k)])))
       (StrKey method) args s
     = k args (s @ [SpyCall l args])"
    by (simp add: call_registered invokeChain_Cons viFn_def)
  show "length (filter (\<lambda>e. e = SpyCall ''spy'' [JObj [(''value'', JBool True)]])
       (snd (callMember
          (applyMiddlewares (dataProviderWithCustomMethod Map.empty)
             (Map.empty(''customMethod'' \<mapsto>
                [viFn ''spy'' (loggingMiddleware ''customMethod''),
                 viFn ''spy'' (loggingMiddleware ''customMethod'')])))
          (StrKey ''customMethod'') [JObj [(''value'', JBool True)]] []))) = 2"
    by (simp add: call_registered invokeChain_Cons invokeChain_Nil viFn_def loggingMiddleware_def
        callMember_customMethod)
qed

subsection \<open>C10: which arguments travel down the chain\<close>

text \<open>
  Claim C10: in a non-empty chain the first middleware is called with the caller's
  arguments; the \<^verbatim>\<open>next\<close> of every middleware but the last ignores the arguments it is
  called with (called with \<open>a\<close> or with \<open>b\<close>, it is the same function of the state) and
  calls the following middleware with the caller's arguments \<open>args\<close>; the \<^verbatim>\<open>next\<close> of the
  last middleware calls the base method with exactly the arguments \<open>a\<close> it is given, with
  no operation name before them.
\<close>

theorem C10_only_last_next_reaches_base:
  "mws \<noteq> [] \<Longrightarrow>
   callMember (applyMiddlewares target (middlewares(method \<mapsto> mws))) (StrKey method) args s
     = (mws ! 0) (invokeChain target (drop 1 mws) method args) args s
   \<and> (Suc i < length mws \<longrightarrow>
        invokeChain target (drop (Suc i) mws) method args a
          = invokeChain target (drop (Suc i) mws) method args b
        \<and> invokeChain target (drop (Suc i) mws) method args a t
          = (mws ! Suc i) (invokeChain target (drop (Suc (Suc i)) mws) method args) args t)
   \<and> invokeChain target (drop (length mws) mws) method args a t
        = callMember target (StrKey method) a t"
proof -
  assume ne: "mws \<noteq> []"
  then have "0 < length mws" by simp
  then have first: "invokeChain target (drop 0 mws) method args =
     (\<lambda>ignored. (mws ! 0) (invokeChain target (drop (Suc 0) mws) method args) args)"
    by (rule invokeChain_drop)
  show ?thesis
    using first by (simp add: call_registered invokeChain_drop invokeChain_Nil)
qed

theorem C10_witness:
  "[\<lambda>next a. next [JStr ''rewritten''],
    viFn ''second'' (\<lambda>next a. next a),
    \<lambda>next a. next (a @ [JStr ''extra''])] \<noteq> []
   \<and> Suc 0 < length [\<lambda>next a. next [JStr ''rewritten''],
    viFn ''second'' (\<lambda>next a. next a),
    \<lambda>next a. next (a @ [JStr ''extra''])]
   \<and> callMember
       (applyMiddlewares (spyOn (dataProviderWithCustomMethod Map.empty) ''customMethod'')
          (Map.empty(''customMethod'' \<mapsto>
             [\<lambda>next a. next [JStr ''rewritten''],
              viFn ''second'' (\<lambda>next a. next a),
              \<lambda>next a. next (a @ [JStr ''extra''])])))
       (StrKey ''customMethod'') [JStr ''original''] []
     = (Inr (JResolved (JObj [(''data'', JStr ''done'')])),
        [SpyCall ''second'' [JStr ''original''],
         SpyCall ''customMethod'' [JStr ''original'', JStr ''extra'']])"
  using C10_only_last_next_reaches_base
    [of "[\<lambda>next a. next [JStr ''rewritten''],
          viFn ''second'' (\<lambda>next a. next a),
          \<lambda>next a. next (a @ [JStr ''extra''])]"
        "spyOn (dataProviderWithCustomMethod Map.empty) ''customMethod''"
        Map.empty "''customMethod''" "[JStr ''original'']" "[]" 0
        "[JStr ''rewritten'']" "[JStr ''original'']" "[]"]
  by (simp add: invokeChain_Cons invokeChain_Nil viFn_def callMember_spyOn
      callMember_customMethod)

end
